theory Spec2Isabelle
  imports Complex_Main "HOL-Library.Sublist"
begin

section \<open>Strings\<close>

text \<open>
  The string methods the program calls, on \<^typ>\<open>string\<close>. A character is one code unit;
  case mapping and white space are those of ASCII, which is where the program's own
  tests on characters (\<open>S\<close>, \<open>W\<close>, \<open>-\<close>, \<open>,\<close>, \<open>.\<close>, digits, the header keywords)
  live. Characters beyond ASCII are left alone by both case mappings.
\<close>

definition isWhiteSpace :: "char \<Rightarrow> bool" where
  "isWhiteSpace c = (c \<in> set [CHR 0x09, CHR 0x0A, CHR 0x0B, CHR 0x0C, CHR 0x0D, CHR '' ''])"

text \<open>\<^verbatim>\<open>s.trim()\<close>\<close>

definition str_trim :: "string \<Rightarrow> string" where
  "str_trim s = rev (dropWhile isWhiteSpace (rev (dropWhile isWhiteSpace s)))"

definition upperChar :: "char \<Rightarrow> char" where
  "upperChar c =
     (case map_of (zip ''abcdefghijklmnopqrstuvwxyz'' ''ABCDEFGHIJKLMNOPQRSTUVWXYZ'') c of
        Some u \<Rightarrow> u
      | None \<Rightarrow> c)"

definition lowerChar :: "char \<Rightarrow> char" where
  "lowerChar c =
     (case map_of (zip ''ABCDEFGHIJKLMNOPQRSTUVWXYZ'' ''abcdefghijklmnopqrstuvwxyz'') c of
        Some l \<Rightarrow> l
      | None \<Rightarrow> c)"

text \<open>\<^verbatim>\<open>s.toUpperCase()\<close> and \<^verbatim>\<open>s.toLowerCase()\<close>\<close>

definition toUpperCase :: "string \<Rightarrow> string" where
  "toUpperCase s = map upperChar s"

definition toLowerCase :: "string \<Rightarrow> string" where
  "toLowerCase s = map lowerChar s"

text \<open>\<^verbatim>\<open>s.startsWith(p)\<close>\<close>

fun startsWith :: "string \<Rightarrow> string \<Rightarrow> bool" where
  "startsWith s [] = True"
| "startsWith [] (p # ps) = False"
| "startsWith (c # cs) (p # ps) = (c = p \<and> startsWith cs ps)"

text \<open>\<^verbatim>\<open>s.includes(p)\<close>: \<open>p\<close> starts at some position of \<open>s\<close>.\<close>

fun str_includes :: "string \<Rightarrow> string \<Rightarrow> bool" where
  "str_includes [] p = (p = [])"
| "str_includes (c # cs) p = (startsWith (c # cs) p \<or> str_includes cs p)"

text \<open>\<^verbatim>\<open>(s.match(/,/g) || []).length\<close>\<close>

definition commaCount :: "string \<Rightarrow> nat" where
  "commaCount s = length (filter (\<lambda>c. c = CHR '','') s)"

text \<open>\<^verbatim>\<open>s.replace(',', '.')\<close>: a string pattern replaces its first occurrence only.\<close>

fun replaceFirst :: "char \<Rightarrow> char \<Rightarrow> string \<Rightarrow> string" where
  "replaceFirst a b [] = []"
| "replaceFirst a b (c # cs) = (if c = a then b # cs else c # replaceFirst a b cs)"

definition isDigit :: "char \<Rightarrow> bool" where
  "isDigit c = (c \<in> set ''0123456789'')"

text \<open>The character class \<^verbatim>\<open>[0-9.-]\<close>; \<^verbatim>\<open>s.replace(/[^0-9.-]/g, '')\<close> keeps its members.\<close>

definition isNumericChar :: "char \<Rightarrow> bool" where
  "isNumericChar c = (isDigit c \<or> c = CHR ''.'' \<or> c = CHR ''-'')"

definition stripNonNumeric :: "string \<Rightarrow> string" where
  "stripNonNumeric s = filter isNumericChar s"

section \<open>Numbers\<close>

text \<open>
  A JavaScript number as the program meets it: a sign and an exact magnitude. The sign
  is kept apart because \<^verbatim>\<open>-Math.abs(0)\<close> is the negative zero, which compares equal to
  zero. Magnitudes are exact decimals: the rounding of binary floating point is outside
  the model.
\<close>

datatype number = Number (negative: bool) (magnitude: rat)

definition numVal :: "number \<Rightarrow> rat" where
  "numVal n = (if negative n then - magnitude n else magnitude n)"

text \<open>\<^verbatim>\<open>Math.abs(n)\<close> and unary minus\<close>

definition math_abs :: "number \<Rightarrow> number" where
  "math_abs n = Number False (magnitude n)"

definition js_neg :: "number \<Rightarrow> number" where
  "js_neg n = Number (\<not> negative n) (magnitude n)"

definition digitVal :: "char \<Rightarrow> nat" where
  "digitVal c = of_char c - 48"

definition digitsVal :: "string \<Rightarrow> nat" where
  "digitsVal ds = foldl (\<lambda>a c. 10 * a + digitVal c) 0 ds"

text \<open>
  \<^verbatim>\<open>parseFloat(s)\<close> on the texts it is given here, which hold digits, periods and minus
  signs only: an optional minus sign, then the longest prefix of the form \<open>digits\<close>,
  \<open>digits.\<close>, \<open>digits.digits\<close> or \<open>.digits\<close>; with no such prefix the result is
  \<^verbatim>\<open>NaN\<close>, here \<^const>\<open>None\<close>.
\<close>

definition parseFloat :: "string \<Rightarrow> number option" where
  "parseFloat s =
     (let neg = startsWith s ''-'';
          r = (if neg then tl s else s);
          ip = takeWhile isDigit r;
          r1 = dropWhile isDigit r;
          fp = (if startsWith r1 ''.'' then takeWhile isDigit (tl r1) else [])
      in if ip = [] \<and> fp = [] then None
         else Some (Number neg (of_nat (digitsVal ip) + of_nat (digitsVal fp) / 10 ^ length fp)))"

section \<open>The scalar coordinate parser\<close>

text \<open>The three steps of \<^verbatim>\<open>cleanAndParse\<close> between the trimming and the parsing.\<close>

definition isNegative :: "string \<Rightarrow> bool" where
  "isNegative s = (str_includes s ''S'' \<or> str_includes s ''W'' \<or> startsWith s ''-'')"

definition normalizeComma :: "string \<Rightarrow> string" where
  "normalizeComma s =
     (if str_includes s '','' \<and> \<not> str_includes s ''.''
      then (if commaCount s = 1 then replaceFirst (CHR '','') (CHR ''.'') s else s)
      else s)"

definition cleanAndParse :: "string \<Rightarrow> number option" where
  "cleanAndParse val =
     (let s = toUpperCase (str_trim val) in
      if s = [] then None
      else
        (let cleaned = stripNonNumeric (normalizeComma s) in
         case parseFloat cleaned of
           None \<Rightarrow> None
         | Some num \<Rightarrow> Some (if isNegative s then js_neg (math_abs num) else math_abs num)))"

section \<open>Rows, mappings and points\<close>

text \<open>
  A row (\<^verbatim>\<open>SheetRow\<close>) is an object keyed by column name, held here as the list of its
  entries in key order. A cell is held by the text \<^verbatim>\<open>String(cell)\<close> gives, which for a
  text cell is the cell itself; \<^verbatim>\<open>String(row[k])\<close> of a key the row lacks is the text
  \<open>undefined\<close>.
\<close>

type_synonym row = "(string \<times> string) list"

definition cellText :: "row \<Rightarrow> string \<Rightarrow> string" where
  "cellText r k = (case map_of r k of None \<Rightarrow> ''undefined'' | Some v \<Rightarrow> v)"

text \<open>
  \<^verbatim>\<open>ColumnMapping\<close>. A field is \<^const>\<open>None\<close> where the object holds \<^verbatim>\<open>undefined\<close>, as
  \<^verbatim>\<open>headers[1]\<close> of a one-column sheet does.
\<close>

record column_mapping =
  latColumn :: "string option"
  lngColumn :: "string option"

record plot_point =
  lat :: number
  lng :: number
  data :: row

text \<open>\<^verbatim>\<open>!x\<close> and \<^verbatim>\<open>x || y\<close> for a string that may be undefined\<close>

definition falsy :: "string option \<Rightarrow> bool" where
  "falsy x = (x = None \<or> x = Some [])"

definition js_or :: "string option \<Rightarrow> string option \<Rightarrow> string option" where
  "js_or x y = (if falsy x then y else x)"

section \<open>The row-to-point resolver\<close>

definition isDelim :: "char \<Rightarrow> bool" where
  "isDelim c = (c = CHR '','' \<or> c = CHR '';'')"

text \<open>\<^verbatim>\<open>s.split(/[,;]/)\<close>; \<open>cur\<close> is the part being read.\<close>

fun splitFrom :: "string \<Rightarrow> string \<Rightarrow> string list" where
  "splitFrom cur [] = [cur]"
| "splitFrom cur (c # cs) =
     (if isDelim c then cur # splitFrom [] cs else splitFrom (cur @ [c]) cs)"

definition str_split :: "string \<Rightarrow> string list" where
  "str_split s = splitFrom [] s"

text \<open>
  The body of the \<^verbatim>\<open>forEach\<close> of \<^verbatim>\<open>processPoints\<close>: first the two parses, by the
  column mode, then the test that decides whether the row is pushed.
\<close>

definition rowCoords :: "string \<Rightarrow> string \<Rightarrow> row \<Rightarrow> number option \<times> number option" where
  "rowCoords latCol lngCol r =
     (if latCol = lngCol then
        (let combined = cellText r latCol;
             parts = str_split combined
         in if length parts \<ge> 2
            then (cleanAndParse (parts ! 0), cleanAndParse (parts ! 1))
            else (None, None))
      else (cleanAndParse (cellText r latCol), cleanAndParse (cellText r lngCol)))"

definition inRange :: "number \<Rightarrow> number \<Rightarrow> bool" where
  "inRange la lo =
     (numVal la \<ge> -90 \<and> numVal la \<le> 90 \<and> numVal lo \<ge> -180 \<and> numVal lo \<le> 180
      \<and> (numVal la \<noteq> 0 \<or> numVal lo \<noteq> 0))"

definition rowPoint :: "string \<Rightarrow> string \<Rightarrow> row \<Rightarrow> plot_point option" where
  "rowPoint latCol lngCol r =
     (case rowCoords latCol lngCol r of
        (Some la, Some lo) \<Rightarrow>
          if inRange la lo then Some \<lparr>lat = la, lng = lo, data = r\<rparr> else None
      | _ \<Rightarrow> None)"

fun forEachRow :: "string \<Rightarrow> string \<Rightarrow> row list \<Rightarrow> plot_point list \<Rightarrow> plot_point list" where
  "forEachRow latCol lngCol [] validPoints = validPoints"
| "forEachRow latCol lngCol (r # rows) validPoints =
     forEachRow latCol lngCol rows
       (case rowPoint latCol lngCol r of
          None \<Rightarrow> validPoints
        | Some p \<Rightarrow> validPoints @ [p])"

text \<open>
  \<^verbatim>\<open>processPoints\<close>. Its guard \<^verbatim>\<open>!mapping || !mapping.latColumn || !mapping.lngColumn\<close>
  holds for a null mapping and for a column name that is undefined or empty.
\<close>

definition processPoints :: "row list \<Rightarrow> column_mapping option \<Rightarrow> plot_point list" where
  "processPoints rows mapping =
     (case mapping of
        None \<Rightarrow> []
      | Some m \<Rightarrow>
          (case (latColumn m, lngColumn m) of
             (Some latCol, Some lngCol) \<Rightarrow>
               if latCol = [] \<or> lngCol = [] then []
               else forEachRow latCol lngCol rows []
           | _ \<Rightarrow> []))"

section \<open>The column mapping resolver\<close>

definition latCandidate :: "string \<Rightarrow> bool" where
  "latCandidate h =
     (let l = toLowerCase h in
      str_includes l ''lat'' \<or> str_includes l ''y'' \<or> l = ''coordinates'' \<or> l = ''coords'')"

definition lngCandidate :: "string \<Rightarrow> bool" where
  "lngCandidate h =
     (let l = toLowerCase h in
      str_includes l ''lng'' \<or> str_includes l ''long'' \<or> str_includes l ''x''
      \<or> l = ''coordinates'' \<or> l = ''coords'')"

text \<open>\<^verbatim>\<open>headers[i]\<close>, which is \<^verbatim>\<open>undefined\<close> past the end\<close>

definition headerAt :: "string list \<Rightarrow> nat \<Rightarrow> string option" where
  "headerAt headers i = (if i < length headers then Some (headers ! i) else None)"

definition fallbackMapping :: "string list \<Rightarrow> column_mapping" where
  "fallbackMapping headers =
     \<lparr>latColumn = js_or (find latCandidate headers) (headerAt headers 0),
      lngColumn = js_or (find lngCandidate headers) (headerAt headers 1)\<rparr>"

text \<open>
  What the \<^verbatim>\<open>try\<close> block of \<^verbatim>\<open>identifyColumns\<close> ends in: the request or
  \<^verbatim>\<open>JSON.parse\<close> throws, or the parsed reply is there. The key is what \<^verbatim>\<open>getApiKey\<close>
  returns; the sample rows only go into the prompt.
\<close>

datatype reply = Threw | Replied column_mapping

definition identifyColumns :: "string \<Rightarrow> reply \<Rightarrow> string list \<Rightarrow> row list \<Rightarrow> column_mapping" where
  "identifyColumns apiKey response headers sampleRows =
     (if apiKey = [] then fallbackMapping headers
      else
        (case response of
           Replied mapping \<Rightarrow> mapping
         | Threw \<Rightarrow> fallbackMapping headers))"

section \<open>The categorical style assigner\<close>


text \<open>
  \<^verbatim>\<open>StyleRule\<close> and \<^verbatim>\<open>StyleConfig\<close>. The colour map is an object used as a
  dictionary, held as a map from key to colour. The map stands for ordinary keys: the
  one key a plain object treats apart, \<^verbatim>\<open>__proto__\<close>, is not distinguished here.
\<close>

record style_rule =
  column :: string
  ruleType :: string
  colorMap :: "string \<rightharpoonup> string"

record style_config =
  activeColumn :: "string option"
  rule :: "style_rule option"





section \<open>The cluster aggregator\<close>












section \<open>Evaluation and the library's notions\<close>

lemmas parse_defs = cleanAndParse_def toUpperCase_def str_trim_def isWhiteSpace_def upperChar_def
  stripNonNumeric_def normalizeComma_def commaCount_def isNumericChar_def isDigit_def
  parseFloat_def digitsVal_def digitVal_def isNegative_def js_neg_def math_abs_def Let_def

lemma startsWith_prefix: "startsWith s p = prefix p s"
  by (induction s p rule: startsWith.induct) auto

lemma str_includes_sublist: "str_includes s p = sublist p s"
  by (induction s) (auto simp: startsWith_prefix sublist_Cons_right)

lemma str_includes_char: "str_includes s [c] = (c \<in> set s)"
  by (induction s) auto

lemma parseFloat_nonneg: "parseFloat s = Some n \<Longrightarrow> 0 \<le> magnitude n"
  by (auto simp: parseFloat_def Let_def split: if_splits)

lemma isNegative_iff:
  "isNegative s = (CHR ''S'' \<in> set s \<or> CHR ''W'' \<in> set s \<or> prefix ''-'' s)"
  by (simp add: isNegative_def str_includes_char startsWith_prefix)

section \<open>The sign of a parsed coordinate\<close>

text \<open>
  C3. Whenever \<^verbatim>\<open>cleanAndParse\<close> returns a number, the cleaned text parsed to some
  \<open>num\<close>, and the result carries the negative sign exactly when the trimmed, uppercased
  text holds an \<open>S\<close> or a \<open>W\<close> anywhere or starts with a minus sign. Its value is the
  absolute value of \<open>num\<close>, negated exactly in that case, whatever minus signs the
  cleaned text holds. For a zero magnitude the negated result is the negative zero, so the
  value is below zero exactly when the sign is negative and \<open>num\<close> is not zero.
  The text \<open>S48.85\<close> parses to \<open>-48.85\<close>.
\<close>

theorem cleanAndParse_sign:
  assumes "cleanAndParse val = Some r"
  shows "(\<exists>num. parseFloat (stripNonNumeric (normalizeComma (toUpperCase (str_trim val)))) = Some num
           \<and> negative r = (CHR ''S'' \<in> set (toUpperCase (str_trim val))
                           \<or> CHR ''W'' \<in> set (toUpperCase (str_trim val))
                           \<or> prefix ''-'' (toUpperCase (str_trim val)))
           \<and> numVal r = (if negative r then - \<bar>numVal num\<bar> else \<bar>numVal num\<bar>)
           \<and> (numVal r < 0 \<longleftrightarrow> negative r \<and> numVal num \<noteq> 0))
         \<and> cleanAndParse ''S48.85'' = Some (Number True (4885 / 100))
         \<and> numVal (Number True (4885 / 100)) = - (4885 / 100)"
proof -
  let ?s = "toUpperCase (str_trim val)"
  from assms obtain num where
    p: "parseFloat (stripNonNumeric (normalizeComma ?s)) = Some num" and
    r: "r = (if isNegative ?s then js_neg (math_abs num) else math_abs num)"
    by (auto simp: cleanAndParse_def Let_def split: if_splits option.splits)
  have m: "0 \<le> magnitude num" using p by (rule parseFloat_nonneg)
  have n: "negative r = isNegative ?s" using r by (simp add: js_neg_def math_abs_def)
  have a: "\<bar>numVal num\<bar> = magnitude num" using m by (simp add: numVal_def)
  have v: "numVal r = (if negative r then - \<bar>numVal num\<bar> else \<bar>numVal num\<bar>)"
    using r a by (simp add: js_neg_def math_abs_def numVal_def)
  have lt: "numVal r < 0 \<longleftrightarrow> negative r \<and> numVal num \<noteq> 0"
    using v m a by (auto simp: numVal_def split: if_splits)
  have e: "cleanAndParse ''S48.85'' = Some (Number True (4885 / 100))"
    "numVal (Number True (4885 / 100)) = - (4885 / 100)"
    by (simp_all add: parse_defs numVal_def)
  have "\<exists>num. parseFloat (stripNonNumeric (normalizeComma (toUpperCase (str_trim val)))) = Some num
           \<and> negative r = (CHR ''S'' \<in> set (toUpperCase (str_trim val))
                           \<or> CHR ''W'' \<in> set (toUpperCase (str_trim val))
                           \<or> prefix ''-'' (toUpperCase (str_trim val)))
           \<and> numVal r = (if negative r then - \<bar>numVal num\<bar> else \<bar>numVal num\<bar>)
           \<and> (numVal r < 0 \<longleftrightarrow> negative r \<and> numVal num \<noteq> 0)"
    using p n v lt by (auto simp: isNegative_iff)
  then show ?thesis using e by blast
qed

text \<open>
  At \<open>S48.85\<close> the result is \<open>-48.85\<close>; at \<open>N-48\<close> the stray minus sign is
  overridden; at \<open>S0\<close> the sign is negative and the value is zero.
\<close>

theorem cleanAndParse_sign_witness:
  "cleanAndParse ''S48.85'' = Some (Number True (4885 / 100))
   \<and> numVal (Number True (4885 / 100)) = - (4885 / 100)
   \<and> cleanAndParse ''N-48'' = Some (Number False 48)
   \<and> cleanAndParse ''S0'' = Some (Number True 0)
   \<and> negative (Number True 0) \<and> \<not> numVal (Number True 0) < 0"
proof -
  have h: "cleanAndParse ''S0'' = Some (Number True 0)" by (simp add: parse_defs)
  have "\<not> numVal (Number True 0) < 0" using cleanAndParse_sign [OF h] by (auto simp: numVal_def)
  moreover have "cleanAndParse ''S48.85'' = Some (Number True (4885 / 100))"
    by (simp add: parse_defs)
  moreover have "cleanAndParse ''N-48'' = Some (Number False 48)" by (simp add: parse_defs)
  ultimately show ?thesis using h by (simp add: numVal_def)
qed

section \<open>Splitting and the loop over the rows\<close>

lemma forEachRow_append:
  "forEachRow a b rows acc = acc @ List.map_filter (rowPoint a b) rows"
  by (induction rows arbitrary: acc) (auto simp: List.map_filter_simps split: option.splits)

lemma splitFrom_unfold:
  "splitFrom cur s =
     (cur @ takeWhile (\<lambda>c. \<not> isDelim c) s)
     # (case dropWhile (\<lambda>c. \<not> isDelim c) s of [] \<Rightarrow> [] | d # rest \<Rightarrow> splitFrom [] rest)"
  by (induction s arbitrary: cur) auto

lemma str_split_unfold:
  "str_split s =
     takeWhile (\<lambda>c. \<not> isDelim c) s
     # (case dropWhile (\<lambda>c. \<not> isDelim c) s of [] \<Rightarrow> [] | d # rest \<Rightarrow> str_split rest)"
  unfolding str_split_def using splitFrom_unfold [of "[]" s] by simp

lemma length_splitFrom: "length (splitFrom cur s) = Suc (length (filter isDelim s))"
  by (induction s arbitrary: cur) auto

lemma length_str_split: "length (str_split s) = Suc (length (filter isDelim s))"
  by (simp add: str_split_def length_splitFrom)

lemma str_split_short: "length (str_split s) \<ge> 2 \<longleftrightarrow> (\<exists>c \<in> set s. isDelim c)"
  by (auto simp: length_str_split filter_empty_conv Suc_le_eq numeral_2_eq_2)

lemma str_split_first: "str_split s ! 0 = takeWhile (\<lambda>c. \<not> isDelim c) s"
  by (subst str_split_unfold) simp

lemma str_split_second:
  assumes "\<exists>c \<in> set s. isDelim c"
  shows "str_split s ! 1 = takeWhile (\<lambda>c. \<not> isDelim c) (tl (dropWhile (\<lambda>c. \<not> isDelim c) s))"
proof -
  from assms have "dropWhile (\<lambda>c. \<not> isDelim c) s \<noteq> []" by (auto simp: dropWhile_eq_Nil_conv)
  then obtain d rest where d: "dropWhile (\<lambda>c. \<not> isDelim c) s = d # rest"
    by (cases "dropWhile (\<lambda>c. \<not> isDelim c) s") auto
  have "str_split s ! 1 = str_split rest ! 0"
    by (subst str_split_unfold) (simp add: d)
  then show ?thesis by (simp add: str_split_first d)
qed

lemma splitFrom_parts:
  "\<forall>c \<in> set cur. \<not> isDelim c \<Longrightarrow> \<forall>p \<in> set (splitFrom cur s). \<forall>c \<in> set p. \<not> isDelim c"
proof (induction s arbitrary: cur)
  case Nil
  then show ?case by simp
next
  case (Cons a s)
  show ?case
  proof (cases "isDelim a")
    case True
    have "\<forall>p \<in> set (splitFrom [] s). \<forall>c \<in> set p. \<not> isDelim c"
      using Cons.IH [of "[]"] by simp
    then show ?thesis using True Cons.prems by simp
  next
    case False
    then have "\<forall>c \<in> set (cur @ [a]). \<not> isDelim c" using Cons.prems by simp
    from Cons.IH [OF this] show ?thesis using False by simp
  qed
qed

lemma str_split_parts: "p \<in> set (str_split s) \<Longrightarrow> c \<in> set p \<Longrightarrow> \<not> isDelim c"
  unfolding str_split_def using splitFrom_parts [of "[]" s] by auto


lemma commaCount_count_list: "commaCount s = count_list s (CHR '','')"
  by (induction s) (auto simp: commaCount_def)

lemma replaceFirst_append: "a \<notin> set xs \<Longrightarrow> replaceFirst a b (xs @ a # ys) = xs @ b # ys"
  by (induction xs) auto

lemma normalizeComma_other: "count_list s (CHR '','') \<noteq> 1 \<Longrightarrow> normalizeComma s = s"
  by (simp add: normalizeComma_def commaCount_count_list)

lemma normalizeComma_one:
  assumes "count_list s (CHR '','') = 1" and "CHR ''.'' \<notin> set s"
  shows "\<exists>a b. s = a @ '','' @ b \<and> CHR '','' \<notin> set a \<and> CHR '','' \<notin> set b
           \<and> normalizeComma s = a @ ''.'' @ b"
proof -
  from assms(1) have "count_list s (CHR '','') = Suc 0" by simp
  from count_list_Suc_split_first [OF this] obtain a b where
    s: "s = a @ CHR '','' # b" and a: "CHR '','' \<notin> set a" and "count_list b (CHR '','') = 0"
    by blast
  then have b: "CHR '','' \<notin> set b" by (simp add: count_list_0_iff)
  have "CHR '','' \<in> set s" using s by simp
  then have "normalizeComma s = replaceFirst (CHR '','') (CHR ''.'') s"
    using assms by (simp add: normalizeComma_def commaCount_count_list str_includes_char)
  then have "normalizeComma s = a @ ''.'' @ b"
    using s a by (simp add: replaceFirst_append)
  then show ?thesis using s a b by auto
qed

section \<open>The decimal comma\<close>

text \<open>
  C6. A text with exactly one comma and no period has that comma rewritten to a period and
  nothing else changed; a text with no comma or with more than one is left as it is. The
  rewriting comes before the cleaning and the parsing: on a non-empty trimmed, uppercased
  text the result of \<^verbatim>\<open>cleanAndParse\<close> is read off the parse of the cleaned, rewritten
  text. So \<open>48,85\<close> parses to \<open>48.85\<close>.
\<close>

theorem normalizeComma_single:
  "(count_list s (CHR '','') = 1 \<and> CHR ''.'' \<notin> set s \<longrightarrow>
      (\<exists>a b. s = a @ '','' @ b \<and> CHR '','' \<notin> set a \<and> CHR '','' \<notin> set b
             \<and> normalizeComma s = a @ ''.'' @ b))
   \<and> (count_list s (CHR '','') \<noteq> 1 \<longrightarrow> normalizeComma s = s)
   \<and> (toUpperCase (str_trim val) \<noteq> [] \<longrightarrow>
        cleanAndParse val =
          map_option
            (\<lambda>num. if isNegative (toUpperCase (str_trim val)) then js_neg (math_abs num)
                   else math_abs num)
            (parseFloat (stripNonNumeric (normalizeComma (toUpperCase (str_trim val))))))
   \<and> cleanAndParse ''48,85'' = Some (Number False (4885 / 100))"
proof -
  have "cleanAndParse ''48,85'' = Some (Number False (4885 / 100))"
    by (simp add: parse_defs)
  moreover have "toUpperCase (str_trim val) \<noteq> [] \<longrightarrow>
        cleanAndParse val =
          map_option
            (\<lambda>num. if isNegative (toUpperCase (str_trim val)) then js_neg (math_abs num)
                   else math_abs num)
            (parseFloat (stripNonNumeric (normalizeComma (toUpperCase (str_trim val)))))"
    by (simp add: cleanAndParse_def Let_def split: option.splits)
  ultimately show ?thesis
    using normalizeComma_one [of s] normalizeComma_other [of s] by blast
qed

theorem normalizeComma_single_witness:
  "normalizeComma ''48,85'' = ''48.85''
   \<and> normalizeComma ''48,85,12'' = ''48,85,12''
   \<and> normalizeComma ''4885'' = ''4885''
   \<and> cleanAndParse ''48,85'' = Some (Number False (4885 / 100))"
proof -
  have c1: "count_list ''48,85'' (CHR '','') = 1 \<and> CHR ''.'' \<notin> set ''48,85''" by simp
  have c2: "count_list ''48,85,12'' (CHR '','') \<noteq> 1" by simp
  have c3: "count_list ''4885'' (CHR '','') \<noteq> 1" by simp
  have "normalizeComma ''48,85,12'' = ''48,85,12''"
    using normalizeComma_single [of "''48,85,12''" "''48,85''"] c2 by blast
  moreover have "normalizeComma ''4885'' = ''4885''"
    using normalizeComma_single [of "''4885''" "''48,85''"] c3 by blast
  moreover have "cleanAndParse ''48,85'' = Some (Number False (4885 / 100))"
    using normalizeComma_single [of "''48,85''" "''48,85''"] by blast
  moreover have "normalizeComma ''48,85'' = ''48.85''"
    by (simp add: normalizeComma_def commaCount_def)
  ultimately show ?thesis by blast
qed

section \<open>An unconfigured mapping\<close>

text \<open>
  C9. \<^verbatim>\<open>processPoints\<close> returns the empty list when the mapping is absent, when either
  column name is the empty string (or undefined), and on an empty row list whatever the
  mapping. The function is total: none of these paths raises.
\<close>

theorem processPoints_inert:
  "processPoints rows None = []
   \<and> (latColumn m = Some [] \<or> lngColumn m = Some [] \<longrightarrow> processPoints rows (Some m) = [])
   \<and> (latColumn m = None \<or> lngColumn m = None \<longrightarrow> processPoints rows (Some m) = [])
   \<and> processPoints [] mapping = []"
  by (auto simp: processPoints_def split: option.splits)

theorem processPoints_inert_witness:
  "processPoints [[(''lat'', ''48.85''), (''lng'', ''2.35'')]]
     (Some \<lparr>latColumn = Some ''lat'', lngColumn = Some []\<rparr>) = []
   \<and> processPoints [[(''lat'', ''48.85''), (''lng'', ''2.35'')]]
     (Some \<lparr>latColumn = None, lngColumn = Some ''lng''\<rparr>) = []
   \<and> processPoints [[(''lat'', ''48.85''), (''lng'', ''2.35'')]] None = []
   \<and> processPoints [] (Some \<lparr>latColumn = Some ''lat'', lngColumn = Some ''lng''\<rparr>) = []"
  using processPoints_inert [of "[[(''lat'', ''48.85''), (''lng'', ''2.35'')]]"
      "\<lparr>latColumn = Some ''lat'', lngColumn = Some []\<rparr>"
      "Some \<lparr>latColumn = Some ''lat'', lngColumn = Some ''lng''\<rparr>"]
    processPoints_inert [of "[[(''lat'', ''48.85''), (''lng'', ''2.35'')]]"
      "\<lparr>latColumn = None, lngColumn = Some ''lng''\<rparr>" None]
  by simp

lemmas points_defs = processPoints_def rowPoint_def rowCoords_def cellText_def inRange_def
  numVal_def str_split_def isDelim_def

lemma set_map_filter: "set (List.map_filter f xs) = {y. \<exists>x \<in> set xs. f x = Some y}"
  by (induction xs) (auto split: option.splits)

lemma rowPoint_Some:
  assumes "rowPoint a b r = Some p"
  shows "data p = r \<and> inRange (lat p) (lng p) \<and> rowCoords a b r = (Some (lat p), Some (lng p))"
  using assms by (auto simp: rowPoint_def split: prod.splits option.splits if_splits)

lemma processPoints_Some:
  assumes "latColumn m = Some a" and "lngColumn m = Some b" and "a \<noteq> []" and "b \<noteq> []"
  shows "processPoints rows (Some m) = List.map_filter (rowPoint a b) rows"
  using assms by (simp add: processPoints_def forEachRow_append)

lemma processPoints_mem:
  assumes "p \<in> set (processPoints rows mapping)"
  shows "\<exists>m a b r. mapping = Some m \<and> latColumn m = Some a \<and> lngColumn m = Some b
           \<and> r \<in> set rows \<and> rowPoint a b r = Some p"
proof -
  from assms obtain m where m: "mapping = Some m"
    by (cases mapping) (auto simp: processPoints_def)
  from assms m obtain a where a: "latColumn m = Some a"
    by (cases "latColumn m") (auto simp: processPoints_def)
  from assms m a obtain b where b: "lngColumn m = Some b"
    by (cases "lngColumn m") (auto simp: processPoints_def)
  from assms m a b have "p \<in> set (List.map_filter (rowPoint a b) rows)"
    by (auto simp: processPoints_def forEachRow_append split: if_splits)
  then obtain r where "r \<in> set rows" and "rowPoint a b r = Some p"
    by (auto simp: set_map_filter)
  with m a b show ?thesis by blast
qed

section \<open>The invariant of a point\<close>

text \<open>
  C2. Every point \<^verbatim>\<open>processPoints\<close> returns has a latitude between \<open>-90\<close> and \<open>90\<close>, a
  longitude between \<open>-180\<close> and \<open>180\<close>, and is not the origin. In particular a row
  whose two coordinate texts (the two cells, or in combined-column mode the first two
  parts of the one cell) both parse to zero is the source row of no returned point.
\<close>

theorem processPoints_invariant:
  "(\<forall>p \<in> set (processPoints rows mapping).
      -90 \<le> numVal (lat p) \<and> numVal (lat p) \<le> 90
      \<and> -180 \<le> numVal (lng p) \<and> numVal (lng p) \<le> 180
      \<and> \<not> (numVal (lat p) = 0 \<and> numVal (lng p) = 0))
   \<and> (latColumn m = Some latCol \<and> lngColumn m = Some lngCol \<and> latCol \<noteq> lngCol
       \<and> cleanAndParse (cellText r latCol) = Some z1 \<and> numVal z1 = 0
       \<and> cleanAndParse (cellText r lngCol) = Some z2 \<and> numVal z2 = 0
       \<longrightarrow> (\<forall>p \<in> set (processPoints rows (Some m)). data p \<noteq> r))
   \<and> (latColumn m = Some c \<and> lngColumn m = Some c
       \<and> 2 \<le> length (str_split (cellText r c))
       \<and> cleanAndParse (str_split (cellText r c) ! 0) = Some z1 \<and> numVal z1 = 0
       \<and> cleanAndParse (str_split (cellText r c) ! 1) = Some z2 \<and> numVal z2 = 0
       \<longrightarrow> (\<forall>p \<in> set (processPoints rows (Some m)). data p \<noteq> r))"
proof (intro conjI ballI impI)
  fix p assume "p \<in> set (processPoints rows mapping)"
  from processPoints_mem [OF this] obtain a b r' where "rowPoint a b r' = Some p" by blast
  from rowPoint_Some [OF this] have "inRange (lat p) (lng p)" by simp
  then show "-90 \<le> numVal (lat p)" "numVal (lat p) \<le> 90" "-180 \<le> numVal (lng p)"
    "numVal (lng p) \<le> 180" "\<not> (numVal (lat p) = 0 \<and> numVal (lng p) = 0)"
    by (auto simp: inRange_def)
next
  fix p
  assume h: "latColumn m = Some latCol \<and> lngColumn m = Some lngCol \<and> latCol \<noteq> lngCol
       \<and> cleanAndParse (cellText r latCol) = Some z1 \<and> numVal z1 = 0
       \<and> cleanAndParse (cellText r lngCol) = Some z2 \<and> numVal z2 = 0"
    and p: "p \<in> set (processPoints rows (Some m))"
  from processPoints_mem [OF p] h obtain r' where r': "rowPoint latCol lngCol r' = Some p"
    by auto
  from rowPoint_Some [OF r'] have d: "data p = r'" and i: "inRange (lat p) (lng p)"
    and c: "rowCoords latCol lngCol r' = (Some (lat p), Some (lng p))" by auto
  show "data p \<noteq> r"
  proof
    assume "data p = r"
    then have "rowCoords latCol lngCol r = (Some (lat p), Some (lng p))" using c d by simp
    then have "lat p = z1" "lng p = z2" using h by (auto simp: rowCoords_def)
    then show False using i h by (simp add: inRange_def)
  qed
next
  fix p
  assume h: "latColumn m = Some c \<and> lngColumn m = Some c
       \<and> 2 \<le> length (str_split (cellText r c))
       \<and> cleanAndParse (str_split (cellText r c) ! 0) = Some z1 \<and> numVal z1 = 0
       \<and> cleanAndParse (str_split (cellText r c) ! 1) = Some z2 \<and> numVal z2 = 0"
    and p: "p \<in> set (processPoints rows (Some m))"
  from processPoints_mem [OF p] h obtain r' where r': "rowPoint c c r' = Some p"
    by auto
  from rowPoint_Some [OF r'] have d: "data p = r'" and i: "inRange (lat p) (lng p)"
    and c: "rowCoords c c r' = (Some (lat p), Some (lng p))" by auto
  show "data p \<noteq> r"
  proof
    assume "data p = r"
    then have "rowCoords c c r = (Some (lat p), Some (lng p))" using c d by simp
    then have "lat p = z1" "lng p = z2" using h by (auto simp: rowCoords_def Let_def)
    then show False using i h by (simp add: inRange_def)
  qed
qed

theorem processPoints_invariant_witness:
  "processPoints
     [[(''lat'', ''0''), (''lng'', ''0'')], [(''lat'', ''48.85''), (''lng'', ''2.35'')]]
     (Some \<lparr>latColumn = Some ''lat'', lngColumn = Some ''lng''\<rparr>)
   = [\<lparr>lat = Number False (4885 / 100), lng = Number False (235 / 100),
       data = [(''lat'', ''48.85''), (''lng'', ''2.35'')]\<rparr>]
   \<and> numVal (Number False (4885 / 100)) \<le> 90
   \<and> cleanAndParse ''0'' = Some (Number False 0)"
proof -
  let ?rows = "[[(''lat'', ''0''), (''lng'', ''0'')], [(''lat'', ''48.85''), (''lng'', ''2.35'')]]"
  let ?m = "\<lparr>latColumn = Some ''lat'', lngColumn = Some ''lng''\<rparr>"
  let ?p = "\<lparr>lat = Number False (4885 / 100), lng = Number False (235 / 100),
       data = [(''lat'', ''48.85''), (''lng'', ''2.35'')]\<rparr>"
  have e: "processPoints ?rows (Some ?m) = [?p]"
    by (simp add: points_defs parse_defs)
  have z: "cleanAndParse ''0'' = Some (Number False 0)" by (simp add: parse_defs)
  have "\<forall>p \<in> set (processPoints ?rows (Some ?m)). numVal (lat p) \<le> 90"
    using processPoints_invariant [of ?rows "Some ?m"] by blast
  then have "numVal (lat ?p) \<le> 90" using e by simp
  then show ?thesis using e z by simp
qed

section \<open>Combined-column mode\<close>

lemma not_delim: "(\<lambda>c. \<not> isDelim c) = (\<lambda>ch. ch \<noteq> CHR '','' \<and> ch \<noteq> CHR '';'')"
  by (simp add: isDelim_def fun_eq_iff)

lemma rowCoords_combined:
  "rowCoords c c r =
     (if \<forall>ch \<in> set (cellText r c). \<not> isDelim ch then (None, None)
      else (cleanAndParse (takeWhile (\<lambda>c. \<not> isDelim c) (cellText r c)),
            cleanAndParse
              (takeWhile (\<lambda>c. \<not> isDelim c) (tl (dropWhile (\<lambda>c. \<not> isDelim c) (cellText r c))))))"
proof (cases "\<exists>ch \<in> set (cellText r c). isDelim ch")
  case True
  then have "2 \<le> length (str_split (cellText r c))" by (simp add: str_split_short)
  then show ?thesis
    using True str_split_second [OF True]
    by (auto simp: rowCoords_def Let_def str_split_first simp del: One_nat_def)
next
  case False
  then have "\<not> 2 \<le> length (str_split (cellText r c))" by (simp add: str_split_short)
  then show ?thesis using False by (auto simp: rowCoords_def Let_def)
qed

text \<open>
  C5. When the latitude and the longitude column are the same (non-empty) column,
  \<^verbatim>\<open>processPoints\<close> resolves each row on its own, in order, from the text of that one
  cell: a text with no comma and no semicolon gives fewer than two parts and the row is
  skipped; otherwise the latitude is parsed from the text before the first delimiter and
  the longitude from the text between the first delimiter and the next (or the end), and
  whatever follows is ignored. The number of parts is one more than the number of
  delimiters. A cell \<open>40.7;-74.0\<close> gives the point \<open>(40.7, -74)\<close>.
\<close>

theorem combined_column_mode:
  assumes "latColumn m = Some c" and "lngColumn m = Some c" and "c \<noteq> []"
  shows "processPoints rows (Some m) = List.map_filter (rowPoint c c) rows
    \<and> (\<forall>r. rowPoint c c r =
         (let t = cellText r c; nd = (\<lambda>ch. ch \<noteq> CHR '','' \<and> ch \<noteq> CHR '';'') in
          if \<forall>ch \<in> set t. nd ch then None
          else
            (case cleanAndParse (takeWhile nd t) of
               None \<Rightarrow> None
             | Some la \<Rightarrow>
                 (case cleanAndParse (takeWhile nd (tl (dropWhile nd t))) of
                    None \<Rightarrow> None
                  | Some lo \<Rightarrow>
                      if -90 \<le> numVal la \<and> numVal la \<le> 90
                         \<and> -180 \<le> numVal lo \<and> numVal lo \<le> 180
                         \<and> \<not> (numVal la = 0 \<and> numVal lo = 0)
                      then Some \<lparr>lat = la, lng = lo, data = r\<rparr>
                      else None))))
    \<and> (\<forall>t. length (str_split t) = 1 + length (filter (\<lambda>ch. ch = CHR '','' \<or> ch = CHR '';'') t))
    \<and> (cellText r0 c = ''40.7;-74.0'' \<longrightarrow>
         processPoints [r0] (Some m)
         = [\<lparr>lat = Number False (407 / 10), lng = Number True 74, data = r0\<rparr>])"
proof (intro conjI allI impI)
  show pp: "processPoints rows (Some m) = List.map_filter (rowPoint c c) rows" for rows
    using assms by (simp add: processPoints_Some)
  show "length (str_split t) = 1 + length (filter (\<lambda>ch. ch = CHR '','' \<or> ch = CHR '';'') t)" for t
    using length_str_split [of t] by (simp add: isDelim_def [abs_def])
  show "rowPoint c c r =
         (let t = cellText r c; nd = (\<lambda>ch. ch \<noteq> CHR '','' \<and> ch \<noteq> CHR '';'') in
          if \<forall>ch \<in> set t. nd ch then None
          else
            (case cleanAndParse (takeWhile nd t) of
               None \<Rightarrow> None
             | Some la \<Rightarrow>
                 (case cleanAndParse (takeWhile nd (tl (dropWhile nd t))) of
                    None \<Rightarrow> None
                  | Some lo \<Rightarrow>
                      if -90 \<le> numVal la \<and> numVal la \<le> 90
                         \<and> -180 \<le> numVal lo \<and> numVal lo \<le> 180
                         \<and> \<not> (numVal la = 0 \<and> numVal lo = 0)
                      then Some \<lparr>lat = la, lng = lo, data = r\<rparr>
                      else None)))" for r
    unfolding rowPoint_def rowCoords_combined not_delim Let_def inRange_def
    by (auto split: option.splits)
  assume t: "cellText r0 c = ''40.7;-74.0''"
  have "rowCoords c c r0 = (Some (Number False (407 / 10)), Some (Number True 74))"
    unfolding rowCoords_combined t by (simp add: isDelim_def parse_defs)
  then have "rowPoint c c r0 = Some \<lparr>lat = Number False (407 / 10), lng = Number True 74, data = r0\<rparr>"
    by (simp add: rowPoint_def inRange_def numVal_def)
  then show "processPoints [r0] (Some m)
         = [\<lparr>lat = Number False (407 / 10), lng = Number True 74, data = r0\<rparr>]"
    by (simp add: pp)
qed

theorem combined_column_mode_witness:
  "processPoints
     [[(''pos'', ''40.7;-74.0'')], [(''pos'', ''40.7'')], [(''pos'', ''40.7,-74.0,extra'')]]
     (Some \<lparr>latColumn = Some ''pos'', lngColumn = Some ''pos''\<rparr>)
   = [\<lparr>lat = Number False (407 / 10), lng = Number True 74, data = [(''pos'', ''40.7;-74.0'')]\<rparr>,
      \<lparr>lat = Number False (407 / 10), lng = Number True 74,
        data = [(''pos'', ''40.7,-74.0,extra'')]\<rparr>]
   \<and> processPoints [[(''pos'', ''40.7;-74.0'')]]
        (Some \<lparr>latColumn = Some ''pos'', lngColumn = Some ''pos''\<rparr>)
      = [\<lparr>lat = Number False (407 / 10), lng = Number True 74,
           data = [(''pos'', ''40.7;-74.0'')]\<rparr>]"
proof -
  let ?m = "\<lparr>latColumn = Some ''pos'', lngColumn = Some ''pos''\<rparr>"
  have m: "latColumn ?m = Some ''pos''" "lngColumn ?m = Some ''pos''" "''pos'' \<noteq> []"
    by simp_all
  have t: "cellText [(''pos'', ''40.7;-74.0'')] ''pos'' = ''40.7;-74.0''"
    by (simp add: cellText_def)
  have "processPoints [[(''pos'', ''40.7;-74.0'')]] (Some ?m)
      = [\<lparr>lat = Number False (407 / 10), lng = Number True 74,
           data = [(''pos'', ''40.7;-74.0'')]\<rparr>]"
    using combined_column_mode [OF m, of "[]" "[(''pos'', ''40.7;-74.0'')]"] t by blast
  moreover have "processPoints
     [[(''pos'', ''40.7;-74.0'')], [(''pos'', ''40.7'')], [(''pos'', ''40.7,-74.0,extra'')]]
     (Some ?m)
   = [\<lparr>lat = Number False (407 / 10), lng = Number True 74, data = [(''pos'', ''40.7;-74.0'')]\<rparr>,
      \<lparr>lat = Number False (407 / 10), lng = Number True 74,
        data = [(''pos'', ''40.7,-74.0,extra'')]\<rparr>]"
    by (simp add: points_defs parse_defs)
  ultimately show ?thesis by simp
qed

lemma upperChar_comma: "upperChar x = CHR '','' \<longleftrightarrow> x = CHR '',''"
  by (auto simp: upperChar_def split: if_splits)

lemma comma_toUpperCase: "CHR '','' \<in> set (toUpperCase s) \<longleftrightarrow> CHR '','' \<in> set s"
proof -
  have "CHR '','' \<in> upperChar ` set s \<longleftrightarrow> CHR '','' \<in> set s"
    using upperChar_comma by (metis imageE image_eqI)
  then show ?thesis by (simp add: toUpperCase_def)
qed

lemma set_str_trim: "x \<in> set (str_trim s) \<Longrightarrow> x \<in> set s"
  unfolding str_trim_def by (auto dest!: set_dropWhileD)

lemma normalizeComma_no_comma: "CHR '','' \<notin> set s \<Longrightarrow> normalizeComma s = s"
  by (simp add: normalizeComma_def str_includes_char)

text \<open>
  C10. In combined-column mode no part handed to the parser holds a comma, so the rewriting
  of a decimal comma never applies to it: the comma has already served as the delimiter.
  A cell \<open>48,85\<close> gives the point with latitude \<open>48\<close> and longitude \<open>85\<close>.
\<close>

theorem combined_comma_is_delimiter:
  assumes "latColumn m = Some c" and "lngColumn m = Some c" and "c \<noteq> []"
  shows "(\<forall>r. \<forall>p \<in> set (str_split (cellText r c)).
            CHR '','' \<notin> set p
            \<and> normalizeComma (toUpperCase (str_trim p)) = toUpperCase (str_trim p))
      \<and> (cellText r0 c = ''48,85'' \<longrightarrow>
           processPoints [r0] (Some m)
           = [\<lparr>lat = Number False 48, lng = Number False 85, data = r0\<rparr>])"
proof (intro conjI allI ballI impI)
  fix r p assume "p \<in> set (str_split (cellText r c))"
  then show p: "CHR '','' \<notin> set p"
    using str_split_parts [of p "cellText r c" "CHR '',''"] by (auto simp: isDelim_def)
  then have "CHR '','' \<notin> set (str_trim p)"
    using set_str_trim [of "CHR '',''" p] by blast
  then have "CHR '','' \<notin> set (toUpperCase (str_trim p))"
    by (simp add: comma_toUpperCase)
  then show "normalizeComma (toUpperCase (str_trim p)) = toUpperCase (str_trim p)"
    by (rule normalizeComma_no_comma)
next
  assume t: "cellText r0 c = ''48,85''"
  have "rowCoords c c r0 = (Some (Number False 48), Some (Number False 85))"
    by (simp add: rowCoords_def t str_split_def isDelim_def parse_defs)
  then have "rowPoint c c r0 = Some \<lparr>lat = Number False 48, lng = Number False 85, data = r0\<rparr>"
    by (simp add: rowPoint_def inRange_def numVal_def)
  then show "processPoints [r0] (Some m)
           = [\<lparr>lat = Number False 48, lng = Number False 85, data = r0\<rparr>]"
    using assms by (simp add: processPoints_Some)
qed

theorem combined_comma_is_delimiter_witness:
  "processPoints [[(''pos'', ''48,85'')]]
     (Some \<lparr>latColumn = Some ''pos'', lngColumn = Some ''pos''\<rparr>)
   = [\<lparr>lat = Number False 48, lng = Number False 85, data = [(''pos'', ''48,85'')]\<rparr>]
   \<and> str_split ''48,85'' = [''48'', ''85'']
   \<and> processPoints [[(''lat'', ''48,85''), (''lng'', ''2,35'')]]
     (Some \<lparr>latColumn = Some ''lat'', lngColumn = Some ''lng''\<rparr>)
   = [\<lparr>lat = Number False (4885 / 100), lng = Number False (235 / 100),
       data = [(''lat'', ''48,85''), (''lng'', ''2,35'')]\<rparr>]"
proof -
  let ?m = "\<lparr>latColumn = Some ''pos'', lngColumn = Some ''pos''\<rparr>"
  have m: "latColumn ?m = Some ''pos''" "lngColumn ?m = Some ''pos''" "''pos'' \<noteq> []"
    by simp_all
  have t: "cellText [(''pos'', ''48,85'')] ''pos'' = ''48,85''"
    by (simp add: cellText_def)
  have "processPoints [[(''pos'', ''48,85'')]] (Some ?m)
   = [\<lparr>lat = Number False 48, lng = Number False 85, data = [(''pos'', ''48,85'')]\<rparr>]"
    using combined_comma_is_delimiter [OF m, of "[(''pos'', ''48,85'')]"] t by blast
  moreover have "str_split ''48,85'' = [''48'', ''85'']"
    by (simp add: str_split_def isDelim_def)
  moreover have "processPoints [[(''lat'', ''48,85''), (''lng'', ''2,35'')]]
     (Some \<lparr>latColumn = Some ''lat'', lngColumn = Some ''lng''\<rparr>)
   = [\<lparr>lat = Number False (4885 / 100), lng = Number False (235 / 100),
       data = [(''lat'', ''48,85''), (''lng'', ''2,35'')]\<rparr>]"
    by (simp add: points_defs parse_defs)
  ultimately show ?thesis by simp
qed

section \<open>The heuristic mapping\<close>

lemmas mapping_defs = fallbackMapping_def js_or_def falsy_def headerAt_def latCandidate_def
  lngCandidate_def toLowerCase_def lowerChar_def Let_def

lemma latCandidate_iff:
  "latCandidate h \<longleftrightarrow>
     sublist ''lat'' (toLowerCase h) \<or> sublist ''y'' (toLowerCase h)
     \<or> toLowerCase h = ''coordinates'' \<or> toLowerCase h = ''coords''"
  by (simp add: latCandidate_def Let_def str_includes_sublist)

lemma lngCandidate_iff:
  "lngCandidate h \<longleftrightarrow>
     sublist ''lng'' (toLowerCase h) \<or> sublist ''long'' (toLowerCase h)
     \<or> sublist ''x'' (toLowerCase h)
     \<or> toLowerCase h = ''coordinates'' \<or> toLowerCase h = ''coords''"
  by (simp add: lngCandidate_def Let_def str_includes_sublist)

lemma latCandidate_nonempty: "latCandidate h \<Longrightarrow> h \<noteq> []"
  by (auto simp: latCandidate_def toLowerCase_def)

lemma lngCandidate_nonempty: "lngCandidate h \<Longrightarrow> h \<noteq> []"
  by (auto simp: lngCandidate_def toLowerCase_def)

lemma js_or_find:
  assumes "\<And>h. P h \<Longrightarrow> h \<noteq> []"
  shows "js_or (find P hs) y = (case find P hs of None \<Rightarrow> y | Some h \<Rightarrow> Some h)"
proof (cases "find P hs")
  case None
  then show ?thesis by (simp add: js_or_def falsy_def)
next
  case (Some h)
  then have "P h" by (auto simp: find_Some_iff)
  then have "h \<noteq> []" by (rule assms)
  then show ?thesis using Some by (simp add: js_or_def falsy_def)
qed

lemma first_candidate:
  assumes "n < length hs"
  shows "((\<forall>h \<in> set hs. \<not> P h) \<longrightarrow>
            (case find P hs of None \<Rightarrow> headerAt hs n | Some h \<Rightarrow> Some h) = Some (hs ! n))
       \<and> ((\<exists>h \<in> set hs. P h) \<longrightarrow>
            (\<exists>i < length hs. (case find P hs of None \<Rightarrow> headerAt hs n | Some h \<Rightarrow> Some h) = Some (hs ! i)
                \<and> P (hs ! i) \<and> (\<forall>j < i. \<not> P (hs ! j))))"
proof (cases "find P hs")
  case None
  then have "\<forall>h \<in> set hs. \<not> P h" by (auto simp: find_None_iff)
  then show ?thesis using assms by (simp add: None headerAt_def)
next
  case (Some h)
  then obtain i where "i < length hs" "P (hs ! i)" "h = hs ! i" "\<forall>j < i. \<not> P (hs ! j)"
    by (auto simp: find_Some_iff)
  then show ?thesis using Some by auto
qed

text \<open>
  C7. On a header list with at least two entries \<^verbatim>\<open>fallbackMapping\<close> takes as latitude
  column the first header whose lower-case form holds \<open>lat\<close> or \<open>y\<close> or is
  \<open>coordinates\<close> or \<open>coords\<close>, and the first header when there is none; as longitude
  column the first header whose lower-case form holds \<open>lng\<close>, \<open>long\<close> or \<open>x\<close> or is
  \<open>coordinates\<close> or \<open>coords\<close>, and the second header when there is none. Headers
  \<open>A, B\<close> give \<open>A\<close> and \<open>B\<close>; in \<open>City, X, Y\<close> the header \<open>City\<close> is a
  candidate (it holds \<open>y\<close>), so the scan decides the latitude column.
\<close>

theorem fallbackMapping_heuristic:
  assumes "2 \<le> length headers"
  shows "((\<forall>h \<in> set headers. \<not> latCandidate h) \<longrightarrow>
            latColumn (fallbackMapping headers) = Some (headers ! 0))
       \<and> ((\<exists>h \<in> set headers. latCandidate h) \<longrightarrow>
            (\<exists>i < length headers. latColumn (fallbackMapping headers) = Some (headers ! i)
                \<and> latCandidate (headers ! i) \<and> (\<forall>j < i. \<not> latCandidate (headers ! j))))
       \<and> ((\<forall>h \<in> set headers. \<not> lngCandidate h) \<longrightarrow>
            lngColumn (fallbackMapping headers) = Some (headers ! 1))
       \<and> ((\<exists>h \<in> set headers. lngCandidate h) \<longrightarrow>
            (\<exists>i < length headers. lngColumn (fallbackMapping headers) = Some (headers ! i)
                \<and> lngCandidate (headers ! i) \<and> (\<forall>j < i. \<not> lngCandidate (headers ! j))))
       \<and> (\<forall>h. latCandidate h \<longleftrightarrow>
            sublist ''lat'' (toLowerCase h) \<or> sublist ''y'' (toLowerCase h)
            \<or> toLowerCase h = ''coordinates'' \<or> toLowerCase h = ''coords'')
       \<and> (\<forall>h. lngCandidate h \<longleftrightarrow>
            sublist ''lng'' (toLowerCase h) \<or> sublist ''long'' (toLowerCase h)
            \<or> sublist ''x'' (toLowerCase h)
            \<or> toLowerCase h = ''coordinates'' \<or> toLowerCase h = ''coords'')
       \<and> fallbackMapping [''A'', ''B''] = \<lparr>latColumn = Some ''A'', lngColumn = Some ''B''\<rparr>
       \<and> latCandidate ''City''
       \<and> fallbackMapping [''City'', ''X'', ''Y'']
           = \<lparr>latColumn = Some ''City'', lngColumn = Some ''X''\<rparr>"
proof -
  have la: "latColumn (fallbackMapping headers)
      = (case find latCandidate headers of None \<Rightarrow> headerAt headers 0 | Some h \<Rightarrow> Some h)"
    by (simp add: fallbackMapping_def js_or_find latCandidate_nonempty)
  have lo: "lngColumn (fallbackMapping headers)
      = (case find lngCandidate headers of None \<Rightarrow> headerAt headers 1 | Some h \<Rightarrow> Some h)"
    by (simp add: fallbackMapping_def js_or_find lngCandidate_nonempty del: One_nat_def)
  have n0: "0 < length headers" and n1: "1 < length headers" using assms by auto
  have e1: "fallbackMapping [''A'', ''B''] = \<lparr>latColumn = Some ''A'', lngColumn = Some ''B''\<rparr>"
    by (simp add: mapping_defs)
  have e2: "latCandidate ''City''" by (simp add: mapping_defs)
  have e3: "fallbackMapping [''City'', ''X'', ''Y'']
           = \<lparr>latColumn = Some ''City'', lngColumn = Some ''X''\<rparr>"
    by (simp add: mapping_defs)
  show ?thesis
    using first_candidate [OF n0, of latCandidate] first_candidate [OF n1, of lngCandidate]
      latCandidate_iff lngCandidate_iff e1 e2 e3
    unfolding la lo by (simp del: One_nat_def)
qed

theorem fallbackMapping_heuristic_witness:
  "fallbackMapping [''Name'', ''Value''] = \<lparr>latColumn = Some ''Name'', lngColumn = Some ''Value''\<rparr>
   \<and> \<not> latCandidate ''Name'' \<and> \<not> latCandidate ''Value''
   \<and> \<not> lngCandidate ''Name'' \<and> \<not> lngCandidate ''Value''
   \<and> fallbackMapping [''id'', ''Longitude'', ''LATITUDE'']
       = \<lparr>latColumn = Some ''LATITUDE'', lngColumn = Some ''Longitude''\<rparr>"
proof -
  have n: "\<not> latCandidate ''Name''" "\<not> latCandidate ''Value''"
    "\<not> lngCandidate ''Name''" "\<not> lngCandidate ''Value''"
    by (simp_all add: mapping_defs)
  have l: "2 \<le> length [''Name'', ''Value'']" by simp
  have "latColumn (fallbackMapping [''Name'', ''Value'']) = Some ''Name''"
    "lngColumn (fallbackMapping [''Name'', ''Value'']) = Some ''Value''"
    using fallbackMapping_heuristic [OF l] n by simp_all
  then have "fallbackMapping [''Name'', ''Value'']
      = \<lparr>latColumn = Some ''Name'', lngColumn = Some ''Value''\<rparr>"
    by (cases "fallbackMapping [''Name'', ''Value'']") simp
  moreover have "fallbackMapping [''id'', ''Longitude'', ''LATITUDE'']
       = \<lparr>latColumn = Some ''LATITUDE'', lngColumn = Some ''Longitude''\<rparr>"
    by (simp add: mapping_defs)
  ultimately show ?thesis using n by simp
qed

section \<open>The external hint\<close>

text \<open>
  C1 asks that a hint naming a column outside the headers never reaches the result. The
  hint is returned as it is: with a key set, a reply naming columns \<open>Z\<close> and \<open>Q\<close>
  is the result for the headers \<open>A, B\<close>.
\<close>

theorem identifyColumns_hint_unchecked:
  "identifyColumns ''key''
     (Replied \<lparr>latColumn = Some ''Z'', lngColumn = Some ''Q''\<rparr>) [''A'', ''B''] []
   = \<lparr>latColumn = Some ''Z'', lngColumn = Some ''Q''\<rparr>
   \<and> ''Z'' \<notin> set [''A'', ''B''] \<and> ''Q'' \<notin> set [''A'', ''B'']"
  by (simp add: identifyColumns_def)

text \<open>
  C1, as the code has it. With a key set, \<^verbatim>\<open>identifyColumns\<close> returns the parsed reply
  verbatim, whatever the headers are; it returns the heuristic mapping when the request
  or the parsing throws, and when no key is set.
\<close>

theorem identifyColumns_hint_verbatim:
  "(apiKey \<noteq> [] \<longrightarrow> identifyColumns apiKey (Replied hint) headers sampleRows = hint)
   \<and> (apiKey \<noteq> [] \<longrightarrow> identifyColumns apiKey Threw headers sampleRows = fallbackMapping headers)
   \<and> identifyColumns [] response headers sampleRows = fallbackMapping headers"
  by (simp add: identifyColumns_def)

theorem identifyColumns_hint_verbatim_witness:
  "identifyColumns ''key''
     (Replied \<lparr>latColumn = Some ''B'', lngColumn = Some ''A''\<rparr>) [''A'', ''B''] []
   = \<lparr>latColumn = Some ''B'', lngColumn = Some ''A''\<rparr>
   \<and> identifyColumns ''key'' Threw [''A'', ''B''] []
       = \<lparr>latColumn = Some ''A'', lngColumn = Some ''B''\<rparr>"
proof -
  have k: "''key'' \<noteq> []" by simp
  have "fallbackMapping [''A'', ''B''] = \<lparr>latColumn = Some ''A'', lngColumn = Some ''B''\<rparr>"
    by (simp add: mapping_defs)
  then show ?thesis
    using identifyColumns_hint_verbatim
      [of "''key''" "\<lparr>latColumn = Some ''B'', lngColumn = Some ''A''\<rparr>" "[''A'', ''B'']" "[]"] k
    by simp
qed

section \<open>Distinct values and their colours\<close>












section \<open>The total of a cluster\<close>






section \<open>One digit after the period\<close>











end
